theory Spec2Isabelle
  imports Complex_Main
begin

section \<open>The browser session of \<^verbatim>\<open>src/services/browser/BrowserSession.ts\<close>\<close>

text \<open>
  The class \<^verbatim>\<open>BrowserSession\<close> drives a puppeteer browser. Its methods are embedded as
  functions that take the object's fields (a record), the state of the outside world
  (the listeners registered on pages and the list of calls dispatched to the browser) and
  the answers the outside world gives to the calls of one method invocation, and return
  the method's outcome with the updated fields and world. A rejected promise or a
  \<^verbatim>\<open>throw\<close> is the outcome \<open>Rejected\<close>.
\<close>

subsection \<open>Errors and outcomes\<close>

text \<open>
  The source tells errors apart only by \<^verbatim>\<open>err instanceof TimeoutError\<close>, and reads
  \<^verbatim>\<open>error.message\<close> and \<^verbatim>\<open>err.toString()\<close>.
\<close>

datatype js_error = TimeoutError string | Error string

fun message :: "js_error \<Rightarrow> string" where
  "message (TimeoutError m) = m"
| "message (Error m) = m"

text \<open>
  \<^verbatim>\<open>Error.prototype.toString\<close>: the name alone when the message is empty, else the name,
  a colon and the message. The two constructors stand for the names \<^verbatim>\<open>TimeoutError\<close> and
  \<^verbatim>\<open>Error\<close>; an error of another class, which prints under its own name, is not
  modelled.
\<close>

fun toString :: "js_error \<Rightarrow> string" where
  "toString (TimeoutError m) = (if m = [] then ''TimeoutError'' else ''TimeoutError: '' @ m)"
| "toString (Error m) = (if m = [] then ''Error'' else ''Error: '' @ m)"

fun instanceof_TimeoutError :: "js_error \<Rightarrow> bool" where
  "instanceof_TimeoutError (TimeoutError m) = True"
| "instanceof_TimeoutError (Error m) = False"

datatype 'a outcome = Resolved 'a | Rejected js_error

text \<open>\<^verbatim>\<open>promise.catch(() => {})\<close>: a rejection is replaced by a resolved promise.\<close>

fun catch_ignore :: "unit outcome \<Rightarrow> unit outcome" where
  "catch_ignore (Resolved u) = Resolved u"
| "catch_ignore (Rejected e) = Resolved ()"

subsection \<open>The stabilization wait\<close>

text \<open>
  \<^verbatim>\<open>waitTillHTMLStable(page, timeout = 5_000)\<close>. The successive answers of
  \<^verbatim>\<open>page.content()\<close> are given as the list of the lengths of the returned documents
  (\<^verbatim>\<open>html.length\<close>), one per poll, a rejected poll being \<open>Rejected\<close>; a page that gives
  no further answer (the list is used up) rejects the poll. The loop variables
  \<^verbatim>\<open>lastHTMLSize\<close>, \<^verbatim>\<open>checkCounts\<close> and \<^verbatim>\<open>countStableSizeIterations\<close> are the
  arguments of the recursion. \<^verbatim>\<open>maxChecks\<close> is the quotient \<^verbatim>\<open>timeout / 500\<close>, not
  rounded; it is exact here, where the source computes it in double precision.
\<close>

datatype wait_result = Stable | TimedOut | Threw js_error

definition checkDurationMsecs :: nat where
  "checkDurationMsecs = 500"

definition minStableSizeIterations :: nat where
  "minStableSizeIterations = 3"

definition no_more_content :: js_error where
  "no_more_content = Error ''page.content: no further answer''"

fun stable_loop :: "rat \<Rightarrow> nat outcome list \<Rightarrow> nat \<Rightarrow> nat \<Rightarrow> nat \<Rightarrow> wait_result" where
  "stable_loop maxChecks polls lastHTMLSize checkCounts countStableSizeIterations =
     (if of_nat checkCounts \<le> maxChecks then
        (case polls of
           [] \<Rightarrow> Threw no_more_content
         | Rejected e # rest \<Rightarrow> Threw e
         | Resolved currentHTMLSize # rest \<Rightarrow>
             (let count = (if lastHTMLSize \<noteq> 0 \<and> currentHTMLSize = lastHTMLSize
                           then countStableSizeIterations + 1 else 0)
              in if count \<ge> minStableSizeIterations then Stable
                 else stable_loop maxChecks rest currentHTMLSize (checkCounts + 1) count))
      else TimedOut)"

definition waitTillHTMLStable :: "nat outcome list \<Rightarrow> nat \<Rightarrow> wait_result" where
  "waitTillHTMLStable polls timeout =
     stable_loop (of_nat timeout / of_nat checkDurationMsecs) polls 0 1 0"

declare stable_loop.simps [simp del]

subsection \<open>The object's fields and the outside world\<close>

type_synonym browser_id = nat
type_synonym page_id = nat

text \<open>
  The fields of the class, except \<^verbatim>\<open>context\<close>, which no method reads. An optional
  field (\<^verbatim>\<open>browser?\<close>, \<^verbatim>\<open>page?\<close>, \<^verbatim>\<open>currentMousePosition?\<close>) is \<open>None\<close> when
  it is \<^verbatim>\<open>undefined\<close>.
\<close>

record BrowserSession =
  browser :: "browser_id option"
  page :: "page_id option"
  currentMousePosition :: "string option"
  isInteractive :: bool
  browserPort :: string

text \<open>The field initialisers and the constructor.\<close>

definition new_session :: BrowserSession where
  "new_session =
     \<lparr>browser = None, page = None, currentMousePosition = None,
      isInteractive = False, browserPort = ''7333''\<rparr>"

text \<open>
  \<^verbatim>\<open>BrowserActionResult\<close> is declared in \<^verbatim>\<open>shared/ExtensionMessage\<close>; the fields are
  those the methods fill in, all optional (\<^verbatim>\<open>return {}\<close> is accepted). The field
  \<open>mousePosition\<close> is the result's \<^verbatim>\<open>currentMousePosition\<close>.
\<close>

record BrowserActionResult =
  screenshot :: "string option"
  logs :: "string option"
  currentUrl :: "string option"
  mousePosition :: "string option"

definition empty_result :: BrowserActionResult where
  "empty_result = \<lparr>screenshot = None, logs = None, currentUrl = None, mousePosition = None\<rparr>"

text \<open>
  An argument handed to \<^verbatim>\<open>page.mouse.click\<close>: \<open>Number s\<close> stands for the value of the
  JavaScript call \<^verbatim>\<open>Number(s)\<close>, which is not computed here, and \<open>Undefined\<close> for
  \<^verbatim>\<open>undefined\<close>.
\<close>

datatype js_value = Number string | Undefined

text \<open>The calls dispatched to puppeteer and the network that change something outside.\<close>

datatype call =
    is_Fetch: Fetch string
  | Connect string
  | Launch
  | NewPage browser_id
  | Disconnect browser_id
  | Close browser_id
  | is_Screenshot: Screenshot page_id string
  | Goto page_id string
  | MouseClick page_id js_value js_value
  | WaitForNavigation page_id
  | KeyboardType page_id string
  | ScrollBy page_id int

text \<open>
  The outside world: the listeners registered on pages (page, event name, listener; a
  listener is a closure, named by the number it got when it was created) and the calls
  dispatched so far, oldest first.
\<close>

record world =
  listeners :: "(page_id \<times> string \<times> nat) list"
  next_listener :: nat
  calls :: "call list"

definition new_world :: world where
  "new_world = \<lparr>listeners = [], next_listener = 0, calls = []\<rparr>"

definition dispatch :: "call \<Rightarrow> world \<Rightarrow> world" where
  "dispatch c w = w\<lparr>calls := calls w @ [c]\<rparr>"

definition new_listener :: "world \<Rightarrow> nat \<times> world" where
  "new_listener w = (next_listener w, w\<lparr>next_listener := next_listener w + 1\<rparr>)"

definition page_on :: "page_id \<Rightarrow> string \<Rightarrow> nat \<Rightarrow> world \<Rightarrow> world" where
  "page_on p ev l w = w\<lparr>listeners := listeners w @ [(p, ev, l)]\<rparr>"

definition page_off :: "page_id \<Rightarrow> string \<Rightarrow> nat \<Rightarrow> world \<Rightarrow> world" where
  "page_off p ev l w = w\<lparr>listeners := remove1 (p, ev, l) (listeners w)\<rparr>"

text \<open>What the page reports while listeners are registered.\<close>

datatype page_event = ConsoleMessage string string | PageError js_error

text \<open>
  The answers of the outside world to the calls of one method invocation: a promise
  resolves or rejects. \<open>fetch_answer\<close> is the outcome of \<^verbatim>\<open>fetch\<close> and, inside it, of
  \<^verbatim>\<open>response.json()\<close>, reduced to the field \<^verbatim>\<open>webSocketDebuggerUrl\<close> of the document
  (\<open>None\<close> when the document has no such field). \<open>request_seen\<close> says whether a
  \<^verbatim>\<open>request\<close> event reached the click's listener before its 100 ms delay was over.
\<close>

record answers =
  fetch_answer :: "string option outcome outcome"
  connect_answer :: "browser_id outcome"
  launch_answer :: "browser_id outcome"
  newPage_answer :: "page_id outcome"
  url_answer :: string
  disconnect_answer :: "unit outcome"
  close_answer :: "unit outcome"
  screenshot_webp :: "string outcome"
  screenshot_png :: "string outcome"
  goto_answer :: "unit outcome"
  content_answers :: "nat outcome list"
  mouse_click_answer :: "unit outcome"
  request_seen :: bool
  waitForNavigation_answer :: "unit outcome"
  keyboard_type_answer :: "unit outcome"
  evaluate_answer :: "unit outcome"
  events_during_action :: "page_event list"
  events_during_wait :: "page_event list"

type_synonym 'a member = "answers \<Rightarrow> BrowserSession \<Rightarrow> world \<Rightarrow> 'a \<times> BrowserSession \<times> world"

subsection \<open>The errors the class throws\<close>

definition NoActivePage :: js_error where
  "NoActivePage = Error (''Browser is not launched or connected. This may occur if the '' @
     ''browser was automatically closed by a non-`browser_action` tool.'')"

definition ScreenshotFailed :: js_error where
  "ScreenshotFailed = Error ''Failed to take screenshot.''"

definition missing_endpoint :: "string \<Rightarrow> js_error" where
  "missing_endpoint port = Error (''BrowserSession.ts :: launchBrowser :: Could not get '' @
     ''webSocketDebuggerUrl from Chrome debugging API, port: '' @ port)"

definition ConnectionError :: "js_error \<Rightarrow> js_error" where
  "ConnectionError error = Error (''BrowserSession.ts :: launchBrowser :: Failed to connect '' @
     ''to browser: '' @ message error @
     '', make sure you have a running browser with --remote-debugging-port=7333'')"

subsection \<open>\<^verbatim>\<open>closeBrowser\<close>\<close>

definition closeBrowser :: "BrowserActionResult outcome member" where
  "closeBrowser a s w =
     (if isInteractive s then
        (case browser s of
           None \<Rightarrow> (Resolved empty_result, s, w)
         | Some b \<Rightarrow>
             (case catch_ignore (disconnect_answer a) of
                Rejected e \<Rightarrow> (Rejected e, s, dispatch (Disconnect b) w)
              | Resolved u \<Rightarrow> (Resolved empty_result, s, dispatch (Disconnect b) w)))
      else
        (case browser s of
           None \<Rightarrow> (Resolved empty_result, s, w)
         | Some b \<Rightarrow>
             (case catch_ignore (close_answer a) of
                Rejected e \<Rightarrow> (Rejected e, s, dispatch (Close b) w)
              | Resolved u \<Rightarrow> (Resolved empty_result, s, dispatch (Close b) w))))"

subsection \<open>\<^verbatim>\<open>launchBrowser\<close>\<close>

definition version_url :: "string \<Rightarrow> string" where
  "version_url port = ''http://127.0.0.1:'' @ port @ ''/json/version''"

text \<open>The body of the \<^verbatim>\<open>try\<close> block of the interactive branch.\<close>

definition connect_try :: "answers \<Rightarrow> string \<Rightarrow> world \<Rightarrow> browser_id outcome \<times> world" where
  "connect_try a port w =
     (let w1 = dispatch (Fetch (version_url port)) w
      in case fetch_answer a of
           Rejected e \<Rightarrow> (Rejected e, w1)
         | Resolved response \<Rightarrow>
             (case response of
                Rejected e \<Rightarrow> (Rejected e, w1)
              | Resolved None \<Rightarrow> (Rejected (missing_endpoint port), w1)
              | Resolved (Some browserWSEndpoint) \<Rightarrow>
                  if browserWSEndpoint = [] then (Rejected (missing_endpoint port), w1)
                  else (connect_answer a, dispatch (Connect browserWSEndpoint) w1)))"

text \<open>The \<^verbatim>\<open>try\<close> block with its \<^verbatim>\<open>catch\<close>.\<close>

definition connect_browser :: "answers \<Rightarrow> string \<Rightarrow> world \<Rightarrow> browser_id outcome \<times> world" where
  "connect_browser a port w =
     (case connect_try a port w of
        (Rejected error, w1) \<Rightarrow> (Rejected (ConnectionError error), w1)
      | (Resolved b, w1) \<Rightarrow> (Resolved b, w1))"

definition launch_result :: "answers \<Rightarrow> BrowserSession \<Rightarrow> BrowserActionResult" where
  "launch_result a s =
     \<lparr>screenshot = Some [],
      logs = Some (if isInteractive s then ''Connected to browser in remote debugging mode.''
                   else ''Browser launched successfully.''),
      currentUrl = Some (url_answer a),
      mousePosition = currentMousePosition s\<rparr>"

definition launchBrowser :: "bool \<Rightarrow> string option \<Rightarrow> BrowserActionResult outcome member" where
  "launchBrowser interactive port a s w =
     (let s1 = s\<lparr>isInteractive := interactive\<rparr>;
          s2 = (case port of
                  None \<Rightarrow> s1
                | Some p \<Rightarrow> if p \<noteq> [] then s1\<lparr>browserPort := p\<rparr> else s1)
      in case (if browser s2 \<noteq> None then closeBrowser a s2 w
               else (Resolved empty_result, s2, w)) of
           (Rejected e, s3, w3) \<Rightarrow> (Rejected e, s3, w3)
         | (Resolved r, s3, w3) \<Rightarrow>
             (case (if isInteractive s3 then connect_browser a (browserPort s3) w3
                    else (launch_answer a, dispatch Launch w3)) of
                (Rejected e, w4) \<Rightarrow> (Rejected e, s3, w4)
              | (Resolved b, w4) \<Rightarrow>
                  (let s4 = s3\<lparr>browser := Some b\<rparr>;
                       w5 = dispatch (NewPage b) w4
                   in case newPage_answer a of
                        Rejected e \<Rightarrow> (Rejected e, s4, w5)
                      | Resolved p \<Rightarrow>
                          (let s5 = s4\<lparr>page := Some p\<rparr>
                           in (Resolved (launch_result a s5), s5, w5)))))"

subsection \<open>\<^verbatim>\<open>getCurrentScreenshot\<close> and \<^verbatim>\<open>doAction\<close>\<close>

definition getCurrentScreenshot :: "answers \<Rightarrow> BrowserSession \<Rightarrow> world \<Rightarrow> string option \<times> world" where
  "getCurrentScreenshot a s w =
     (case page s of
        None \<Rightarrow> (None, w)
      | Some p \<Rightarrow>
          (let w1 = dispatch (Screenshot p ''webp'') w
           in case screenshot_webp a of
                Resolved screenshotBase64 \<Rightarrow> (Some (''data:image/webp;base64,'' @ screenshotBase64), w1)
              | Rejected err \<Rightarrow>
                  (let w2 = dispatch (Screenshot p ''png'') w1
                   in case screenshot_png a of
                        Resolved screenshotBase64 \<Rightarrow>
                          (Some (''data:image/png;base64,'' @ screenshotBase64), w2)
                      | Rejected err2 \<Rightarrow> (None, w2))))"

text \<open>The two listeners of \<^verbatim>\<open>doAction\<close>, as functions on the array \<^verbatim>\<open>logs\<close>.\<close>

definition consoleListener :: "string \<Rightarrow> string \<Rightarrow> string list \<Rightarrow> string list" where
  "consoleListener type text lines =
     (if type = ''log'' then lines @ [text] else lines @ [''['' @ type @ ''] '' @ text])"

definition errorListener :: "js_error \<Rightarrow> string list \<Rightarrow> string list" where
  "errorListener err lines = lines @ [''[Page Error] '' @ toString err]"

fun deliver :: "string list \<Rightarrow> page_event \<Rightarrow> string list" where
  "deliver lines (ConsoleMessage type text) = consoleListener type text lines"
| "deliver lines (PageError err) = errorListener err lines"

text \<open>\<^verbatim>\<open>logs.join("\n")\<close>.\<close>

fun join :: "string list \<Rightarrow> string" where
  "join [] = []"
| "join [l] = l"
| "join (l # ls) = l @ [CHR 0x0A] @ join ls"

text \<open>
  The effect handed to \<^verbatim>\<open>doAction\<close> is a closure over the object: it gets the page
  and may assign fields. The wait for console inactivity (\<^verbatim>\<open>pWaitFor\<close>, its rejection
  ignored) only lets time pass, during which the listeners may receive
  \<open>events_during_wait\<close>. After the screenshot the source reads \<^verbatim>\<open>this.page\<close> again;
  were it \<^verbatim>\<open>undefined\<close> there, \<^verbatim>\<open>getCurrentScreenshot\<close> would have returned
  \<^verbatim>\<open>undefined\<close> before.
\<close>

type_synonym effect = "answers \<Rightarrow> page_id \<Rightarrow> BrowserSession \<Rightarrow> world \<Rightarrow> unit outcome \<times> BrowserSession \<times> world"

definition doAction :: "effect \<Rightarrow> BrowserActionResult outcome member" where
  "doAction action a s w =
     (case page s of
        None \<Rightarrow> (Rejected NoActivePage, s, w)
      | Some p \<Rightarrow>
          (let (consoleL, wa) = new_listener w;
               (errorL, wb) = new_listener wa;
               w1 = page_on p ''pageerror'' errorL (page_on p ''console'' consoleL wb);
               (r, s1, w2) = action a p s w1;
               logs1 = foldl deliver [] (events_during_action a);
               logs2 = (case r of
                          Resolved u \<Rightarrow> logs1
                        | Rejected err \<Rightarrow>
                            if \<not> instanceof_TimeoutError err
                            then logs1 @ [''[Error] '' @ toString err] else logs1);
               logs3 = foldl deliver logs2 (events_during_wait a);
               (shot, w3) = getCurrentScreenshot a s1 w2
           in case shot of
                None \<Rightarrow> (Rejected ScreenshotFailed, s1, w3)
              | Some sc \<Rightarrow>
                  if sc = [] then (Rejected ScreenshotFailed, s1, w3)
                  else
                    (case page s1 of
                       None \<Rightarrow> (Rejected ScreenshotFailed, s1, w3)
                     | Some p1 \<Rightarrow>
                         (Resolved \<lparr>screenshot = Some sc, logs = Some (join logs3),
                                    currentUrl = Some (url_answer a),
                                    mousePosition = currentMousePosition s1\<rparr>,
                          s1,
                          page_off p1 ''pageerror'' errorL (page_off p1 ''console'' consoleL w3)))))"

subsection \<open>The actions\<close>

text \<open>
  The result of \<^verbatim>\<open>await this.waitTillHTMLStable(page)\<close> inside an effect: the helper
  returns nothing, so only a rejected poll shows.
\<close>

definition await_stable :: "answers \<Rightarrow> unit outcome" where
  "await_stable a =
     (case waitTillHTMLStable (content_answers a) 5000 of
        Threw e \<Rightarrow> Rejected e
      | Stable \<Rightarrow> Resolved ()
      | TimedOut \<Rightarrow> Resolved ())"

definition navigate_effect :: "string \<Rightarrow> effect" where
  "navigate_effect url a p s w =
     (let w1 = dispatch (Goto p url) w
      in case goto_answer a of
           Rejected e \<Rightarrow> (Rejected e, s, w1)
         | Resolved u \<Rightarrow> (await_stable a, s, w1))"

definition navigateToUrl :: "string \<Rightarrow> BrowserActionResult outcome member" where
  "navigateToUrl url = doAction (navigate_effect url)"

text \<open>\<^verbatim>\<open>coordinate.split(",")\<close>: never empty; an empty string gives one empty part.\<close>

fun split_comma :: "string \<Rightarrow> string list" where
  "split_comma [] = [[]]"
| "split_comma (c # cs) =
     (if c = CHR '','' then [] # split_comma cs
      else (case split_comma cs of
              [] \<Rightarrow> [[c]]
            | part # parts \<Rightarrow> (c # part) # parts))"

text \<open>\<^verbatim>\<open>const [x, y] = ...\<close>: a missing element is \<^verbatim>\<open>undefined\<close>, further ones are dropped.\<close>

fun destructure2 :: "js_value list \<Rightarrow> js_value \<times> js_value" where
  "destructure2 [] = (Undefined, Undefined)"
| "destructure2 [x] = (x, Undefined)"
| "destructure2 (x # y # rest) = (x, y)"

definition click_effect :: "string \<Rightarrow> effect" where
  "click_effect coordinate a p s w =
     (let (x, y) = destructure2 (map Number (split_comma coordinate));
          (requestListener, wa) = new_listener w;
          w1 = page_on p ''request'' requestListener wa;
          w2 = dispatch (MouseClick p x y) w1
      in case mouse_click_answer a of
           Rejected e \<Rightarrow> (Rejected e, s, w2)
         | Resolved u \<Rightarrow>
             (let s1 = s\<lparr>currentMousePosition := Some coordinate\<rparr>
              in if request_seen a then
                   (let w3 = dispatch (WaitForNavigation p) w2
                    in case catch_ignore (waitForNavigation_answer a) of
                         Rejected e \<Rightarrow> (Rejected e, s1, w3)
                       | Resolved u2 \<Rightarrow>
                           (case await_stable a of
                              Rejected e \<Rightarrow> (Rejected e, s1, w3)
                            | Resolved u3 \<Rightarrow>
                                (Resolved (), s1, page_off p ''request'' requestListener w3)))
                 else (Resolved (), s1, page_off p ''request'' requestListener w2)))"

definition click :: "string \<Rightarrow> BrowserActionResult outcome member" where
  "click coordinate = doAction (click_effect coordinate)"

definition type_effect :: "string \<Rightarrow> effect" where
  "type_effect text a p s w = (keyboard_type_answer a, s, dispatch (KeyboardType p text) w)"

definition type :: "string \<Rightarrow> BrowserActionResult outcome member" where
  "type text = doAction (type_effect text)"

text \<open>
  The scroll effects evaluate \<^verbatim>\<open>window.scrollBy({top: 600})\<close> (or \<^verbatim>\<open>-600\<close>) in the
  page and then wait 300 ms.
\<close>

definition scroll_effect :: "int \<Rightarrow> effect" where
  "scroll_effect dy a p s w = (evaluate_answer a, s, dispatch (ScrollBy p dy) w)"

definition scrollDown :: "BrowserActionResult outcome member" where
  "scrollDown = doAction (scroll_effect 600)"

definition scrollUp :: "BrowserActionResult outcome member" where
  "scrollUp = doAction (scroll_effect (- 600))"

subsection \<open>Sequences of calls on one object\<close>

datatype request = NavigateToUrl string | Click string | Type string | ScrollDown | ScrollUp

fun perform :: "request \<Rightarrow> BrowserActionResult outcome member" where
  "perform (NavigateToUrl url) = navigateToUrl url"
| "perform (Click coordinate) = click coordinate"
| "perform (Type text) = type text"
| "perform ScrollDown = scrollDown"
| "perform ScrollUp = scrollUp"

fun request_effect :: "request \<Rightarrow> effect" where
  "request_effect (NavigateToUrl url) = navigate_effect url"
| "request_effect (Click coordinate) = click_effect coordinate"
| "request_effect (Type text) = type_effect text"
| "request_effect ScrollDown = scroll_effect 600"
| "request_effect ScrollUp = scroll_effect (- 600)"

datatype api_call = LaunchBrowser bool "string option" | CloseBrowser | Action request

fun invoke :: "api_call \<Rightarrow> BrowserActionResult outcome member" where
  "invoke (LaunchBrowser interactive port) = launchBrowser interactive port"
| "invoke CloseBrowser = closeBrowser"
| "invoke (Action r) = perform r"

text \<open>
  A caller's calls in order, each with the answers the world gives to it. The object and
  the world live on whether a call returns or throws.
\<close>

fun run :: "(api_call \<times> answers) list \<Rightarrow> BrowserSession \<Rightarrow> world \<Rightarrow> BrowserSession \<times> world" where
  "run [] s w = (s, w)"
| "run ((c, a) # rest) s w = (case invoke c a s w of (r, s1, w1) \<Rightarrow> run rest s1 w1)"

subsection \<open>Notions of the specification\<close>

text \<open>
  The stability counter as the specification words it: after each poll, one more if the
  length is non-zero and unchanged from the previous poll, else zero. The state is the
  previous length and the counter.
\<close>

definition spec_step :: "nat \<times> nat \<Rightarrow> nat \<Rightarrow> nat \<times> nat" where
  "spec_step st cur = (cur, if cur \<noteq> 0 \<and> cur = fst st then snd st + 1 else 0)"

definition spec_counter :: "nat list \<Rightarrow> nat" where
  "spec_counter xs = snd (foldl spec_step (0, 0) xs)"

text \<open>
  A coordinate that parses as two comma-separated integers, as the specification asks of
  the argument of \<^verbatim>\<open>click\<close>: decimal digits, with an optional minus sign.
\<close>

definition is_digit :: "char \<Rightarrow> bool" where
  "is_digit c = (c \<in> set ''0123456789'')"

fun spec_integer_text :: "string \<Rightarrow> bool" where
  "spec_integer_text [] = False"
| "spec_integer_text (c # cs) =
     (if c = CHR ''-'' then cs \<noteq> [] \<and> list_all is_digit cs else list_all is_digit (c # cs))"

definition spec_valid_coordinate :: "string \<Rightarrow> bool" where
  "spec_valid_coordinate coordinate =
     (case split_comma coordinate of
        [x, y] \<Rightarrow> spec_integer_text x \<and> spec_integer_text y
      | _ \<Rightarrow> False)"




subsection \<open>A cooperative world, for the examples\<close>

text \<open>
  Every call resolves, the browser and its page get the handle 1, no request and no
  console message is seen, and the page's content never changes.
\<close>

definition ok_answers :: answers where
  "ok_answers =
     \<lparr>fetch_answer = Resolved (Resolved (Some ''ws://127.0.0.1/devtools/browser/1'')),
      connect_answer = Resolved 1,
      launch_answer = Resolved 1,
      newPage_answer = Resolved 1,
      url_answer = ''about:blank'',
      disconnect_answer = Resolved (),
      close_answer = Resolved (),
      screenshot_webp = Resolved ''UklGRg=='',
      screenshot_png = Resolved ''iVBORw=='',
      goto_answer = Resolved (),
      content_answers = replicate 10 (Resolved 39),
      mouse_click_answer = Resolved (),
      request_seen = False,
      waitForNavigation_answer = Resolved (),
      keyboard_type_answer = Resolved (),
      evaluate_answer = Resolved (),
      events_during_action = [],
      events_during_wait = []\<rparr>"

text \<open>A new object after one successful \<^verbatim>\<open>launchBrowser()\<close>.\<close>

definition launched :: "BrowserSession \<times> world" where
  "launched = run [(LaunchBrowser False None, ok_answers)] new_session new_world"

section \<open>Properties\<close>

subsection \<open>Unfolding the methods\<close>

lemmas world_defs = dispatch_def new_listener_def page_on_def page_off_def

lemma catch_ignore_eq [simp]: "catch_ignore r = Resolved ()"
  by (cases r) simp_all

lemma closeBrowser_eq:
  "closeBrowser a s w =
     (Resolved empty_result, s,
      case browser s of
        None \<Rightarrow> w
      | Some b \<Rightarrow> dispatch (if isInteractive s then Disconnect b else Close b) w)"
  by (simp add: closeBrowser_def split: option.splits)

lemmas eval_defs =
  launchBrowser_def connect_browser_def connect_try_def launch_result_def
  doAction_def getCurrentScreenshot_def dispatch_def new_listener_def page_on_def page_off_def
  new_session_def new_world_def ok_answers_def empty_result_def version_url_def
  type_def type_effect_def click_def click_effect_def scrollDown_def scrollUp_def scroll_effect_def
  navigateToUrl_def navigate_effect_def await_stable_def closeBrowser_eq
  consoleListener_def errorListener_def ScreenshotFailed_def

lemma launched_eq:
  "launched =
     (\<lparr>browser = Some 1, page = Some 1, currentMousePosition = None,
       isInteractive = False, browserPort = ''7333''\<rparr>,
      \<lparr>listeners = [], next_listener = 0, calls = [Launch, NewPage 1]\<rparr>)"
  by (simp add: launched_def eval_defs)

lemma request_effect_keeps:
  "request_effect rq a p s w = (r, s1, w1) \<Longrightarrow>
   page s1 = page s \<and> browserPort s1 = browserPort s \<and>
   filter is_Screenshot (calls w1) = filter is_Screenshot (calls w)"
  by (cases rq)
     (auto simp: navigate_effect_def click_effect_def type_effect_def scroll_effect_def
        world_defs Let_def split: outcome.splits if_splits prod.splits)

lemma perform_doAction: "perform rq = doAction (request_effect rq)"
  by (cases rq) (simp_all add: navigateToUrl_def click_def type_def scrollDown_def scrollUp_def)


text \<open>
  With a page, \<^verbatim>\<open>doAction\<close> registers its two listeners, runs the effect, and goes on
  from the effect's outcome.
\<close>

lemma doAction_unfold:
  assumes "page s = Some p"
    and "action a p s (page_on p ''pageerror'' (Suc (next_listener w))
           (page_on p ''console'' (next_listener w)
              (w\<lparr>next_listener := Suc (Suc (next_listener w))\<rparr>))) = (r, s1, w2)"
    and "page s1 = Some p"
  shows "doAction action a s w =
     (case getCurrentScreenshot a s1 w2 of
        (None, w3) \<Rightarrow> (Rejected ScreenshotFailed, s1, w3)
      | (Some sc, w3) \<Rightarrow>
          if sc = [] then (Rejected ScreenshotFailed, s1, w3)
          else (Resolved \<lparr>screenshot = Some sc,
                   logs = Some (join (foldl deliver
                      (case r of Resolved u \<Rightarrow> foldl deliver [] (events_during_action a)
                       | Rejected err \<Rightarrow>
                            if \<not> instanceof_TimeoutError err
                            then foldl deliver [] (events_during_action a) @
                                 [''[Error] '' @ toString err]
                            else foldl deliver [] (events_during_action a))
                      (events_during_wait a))),
                   currentUrl = Some (url_answer a),
                   mousePosition = currentMousePosition s1\<rparr>,
                s1,
                page_off p ''pageerror'' (Suc (next_listener w))
                  (page_off p ''console'' (next_listener w) w3)))"
  using assms
  by (simp add: doAction_def new_listener_def Let_def page_on_def split: prod.splits option.splits)

lemma getCurrentScreenshot_cases:
  assumes "page s = Some p"
  shows "getCurrentScreenshot a s w =
     (case screenshot_webp a of
        Resolved b \<Rightarrow> (Some (''data:image/webp;base64,'' @ b), dispatch (Screenshot p ''webp'') w)
      | Rejected e \<Rightarrow>
          (case screenshot_png a of
             Resolved b \<Rightarrow> (Some (''data:image/png;base64,'' @ b),
                            dispatch (Screenshot p ''png'') (dispatch (Screenshot p ''webp'') w))
           | Rejected e2 \<Rightarrow>
               (None, dispatch (Screenshot p ''png'') (dispatch (Screenshot p ''webp'') w))))"
  using assms by (simp add: getCurrentScreenshot_def Let_def split: outcome.splits)

lemma doAction_summary:
  assumes "page s = Some p"
    and "action a p s (page_on p ''pageerror'' (Suc (next_listener w))
           (page_on p ''console'' (next_listener w)
              (w\<lparr>next_listener := Suc (Suc (next_listener w))\<rparr>))) = (r, s1, w2)"
    and "page s1 = Some p"
  shows "fst (snd (doAction action a s w)) = s1"
    and "set (calls w2) \<subseteq> set (calls (snd (snd (doAction action a s w))))"
    and "fst (doAction action a s w) = Rejected e \<Longrightarrow> e = ScreenshotFailed"
    and "fst (doAction action a s w) = Resolved res \<Longrightarrow> mousePosition res = currentMousePosition s1"
  unfolding doAction_unfold [where action = action, OF assms]
    getCurrentScreenshot_cases [OF assms(3)]
  by (auto simp: dispatch_def page_off_def split: outcome.splits if_splits)

lemma click_effect_facts:
  assumes "click_effect c a p s w = (r, s1, w1)"
  shows "MouseClick p (fst (destructure2 (map Number (split_comma c))))
                      (snd (destructure2 (map Number (split_comma c)))) \<in> set (calls w1)"
    and "mouse_click_answer a = Resolved () \<Longrightarrow> currentMousePosition s1 = Some c"
    and "mouse_click_answer a = Rejected e \<Longrightarrow> currentMousePosition s1 = currentMousePosition s"
    and "page s1 = page s"
  using assms
  by (auto simp: click_effect_def world_defs Let_def split: outcome.splits if_splits prod.splits)

subsection \<open>The stabilization wait\<close>

lemma stable_loop_Cons:
  "stable_loop M (Resolved x # rest) l c n =
     (if of_nat c \<le> M then
        (if (if l \<noteq> 0 \<and> x = l then n + 1 else 0) \<ge> 3 then Stable
         else stable_loop M rest x (c + 1) (if l \<noteq> 0 \<and> x = l then n + 1 else 0))
      else TimedOut)"
  by (subst stable_loop.simps) (simp add: minStableSizeIterations_def Let_def)

lemma stable_loop_Nil:
  "stable_loop M [] l c n = (if of_nat c \<le> M then Threw no_more_content else TimedOut)"
  by (subst stable_loop.simps) simp

text \<open>
  The loop invariant: from any loop state with a counter below 3, the loop declares
  stability exactly when some further poll, made before \<^verbatim>\<open>checkCounts\<close> exceeds
  \<^verbatim>\<open>maxChecks\<close>, brings the specification's counter to 3.
\<close>

lemma stable_loop_counter:
  "n0 < 3 \<Longrightarrow>
   (stable_loop M (map Resolved xs) l c n0 = Stable) =
   (\<exists>n. 0 < n \<and> n \<le> length xs \<and> of_nat (c + n - 1) \<le> M \<and>
        snd (foldl spec_step (l, n0) (take n xs)) = 3)"
proof (induction xs arbitrary: l c n0)
  case Nil
  then show ?case by (simp add: stable_loop_Nil)
next
  case (Cons x xs)
  let ?cnt = "if l \<noteq> 0 \<and> x = l then n0 + 1 else 0"
  have step: "spec_step (l, n0) x = (x, ?cnt)"
    by (auto simp: spec_step_def)
  show ?case
  proof (cases "of_nat c \<le> M")
    case False
    have "\<not> (of_nat (c + n - 1) \<le> M)" if "0 < n" for n
    proof -
      have "(of_nat c :: rat) \<le> of_nat (c + n - 1)" using that by simp
      with False show ?thesis by linarith
    qed
    with False show ?thesis by (auto simp: stable_loop_Cons)
  next
    case True
    show ?thesis
    proof (cases "?cnt \<ge> 3")
      case ge: True
      with Cons.prems have "?cnt = 3" by (auto split: if_splits)
      then have "0 < (1::nat) \<and> 1 \<le> length (x # xs) \<and> of_nat (c + 1 - 1) \<le> M \<and>
                 snd (foldl spec_step (l, n0) (take 1 (x # xs))) = 3"
        using True step by simp
      then have "\<exists>n. 0 < n \<and> n \<le> length (x # xs) \<and> of_nat (c + n - 1) \<le> M \<and>
                 snd (foldl spec_step (l, n0) (take n (x # xs))) = 3" by blast
      moreover have "stable_loop M (map Resolved (x # xs)) l c n0 = Stable"
        using True ge by (simp add: stable_loop_Cons)
      ultimately show ?thesis by simp
    next
      case lt: False
      then have lt3: "?cnt < 3" by simp
      have unfold: "stable_loop M (map Resolved (x # xs)) l c n0 =
                    stable_loop M (map Resolved xs) x (c + 1) ?cnt"
        using True lt by (simp add: stable_loop_Cons)
      have "(\<exists>n. 0 < n \<and> n \<le> length xs \<and> of_nat (c + 1 + n - 1) \<le> M \<and>
                 snd (foldl spec_step (x, ?cnt) (take n xs)) = 3) =
            (\<exists>n. 0 < n \<and> n \<le> length (x # xs) \<and> of_nat (c + n - 1) \<le> M \<and>
                 snd (foldl spec_step (l, n0) (take n (x # xs))) = 3)" (is "?L = ?R")
      proof
        assume ?L
        then obtain n where n: "0 < n" "n \<le> length xs" "of_nat (c + 1 + n - 1) \<le> M"
          "snd (foldl spec_step (x, ?cnt) (take n xs)) = 3" by blast
        have "0 < Suc n \<and> Suc n \<le> length (x # xs) \<and> of_nat (c + Suc n - 1) \<le> M \<and>
              snd (foldl spec_step (l, n0) (take (Suc n) (x # xs))) = 3"
          using n step by simp
        then show ?R by blast
      next
        assume ?R
        then obtain n where n: "0 < n" "n \<le> length (x # xs)" "of_nat (c + n - 1) \<le> M"
          "snd (foldl spec_step (l, n0) (take n (x # xs))) = 3" by blast
        show ?L
        proof (cases n)
          case 0
          with n show ?thesis by simp
        next
          case (Suc m)
          show ?thesis
          proof (cases m)
            case 0
            with Suc n step lt3 show ?thesis by simp
          next
            case (Suc k)
            with \<open>n = Suc m\<close> n step
            have "0 < m \<and> m \<le> length xs \<and> of_nat (c + 1 + m - 1) \<le> M \<and>
                  snd (foldl spec_step (x, ?cnt) (take m xs)) = 3" by simp
            then show ?thesis by blast
          qed
        qed
      qed
      with Cons.IH [OF lt3, of x "c + 1"] unfold show ?thesis by simp
    qed
  qed
qed

lemma checks_within_timeout:
  "0 < n \<Longrightarrow> ((of_nat (1 + n - 1) :: rat) \<le> of_nat timeout / of_nat checkDurationMsecs) =
     (n * checkDurationMsecs \<le> timeout)"
proof -
  have "((of_nat n :: rat) \<le> of_nat timeout / of_nat 500) = (of_nat n * of_nat 500 \<le> (of_nat timeout :: rat))"
    by (simp add: pos_le_divide_eq)
  also have "\<dots> = ((of_nat (n * 500) :: rat) \<le> of_nat timeout)"
    by simp
  also have "\<dots> = (n * 500 \<le> timeout)"
    by (simp only: of_nat_le_iff)
  finally show ?thesis by (simp add: checkDurationMsecs_def)
qed

lemma stable_iff:
  "(waitTillHTMLStable (map Resolved xs) timeout = Stable) =
     (\<exists>n. 0 < n \<and> n \<le> length xs \<and> n * checkDurationMsecs \<le> timeout \<and>
          spec_counter (take n xs) = minStableSizeIterations)"
proof -
  have "(waitTillHTMLStable (map Resolved xs) timeout = Stable) =
     (\<exists>n. 0 < n \<and> n \<le> length xs \<and>
          (of_nat (1 + n - 1) :: rat) \<le> of_nat timeout / of_nat checkDurationMsecs \<and>
          snd (foldl spec_step (0, 0) (take n xs)) = 3)"
    unfolding waitTillHTMLStable_def by (rule stable_loop_counter) simp
  also have "\<dots> = (\<exists>n. 0 < n \<and> n \<le> length xs \<and> n * checkDurationMsecs \<le> timeout \<and>
          spec_counter (take n xs) = minStableSizeIterations)"
    using checks_within_timeout [of _ timeout]
    by (auto simp: spec_counter_def minStableSizeIterations_def)
  finally show ?thesis .
qed

lemma four_polls_never_stable:
  "waitTillHTMLStable (map Resolved [100, 250, 250, 250]) timeout \<noteq> Stable"
  by (simp add: waitTillHTMLStable_def stable_loop_Cons stable_loop_Nil)

lemma change_after_three_never_stable:
  "waitTillHTMLStable (map Resolved [100, 250, 250, 250, 400]) timeout \<noteq> Stable"
  by (simp add: waitTillHTMLStable_def stable_loop_Cons stable_loop_Nil)

lemma five_polls_stable:
  "waitTillHTMLStable (map Resolved [100, 250, 250, 250, 250]) 5000 = Stable"
  by (simp add: waitTillHTMLStable_def checkDurationMsecs_def stable_loop_Cons stable_loop_Nil)

text \<open>
  Claim C1, as the code has it. On a page that answers every poll, the helper declares
  stability exactly when, at one of the polls the timeout allows, the counter of
  consecutive polls with a non-zero length unchanged from the previous poll (reset to zero
  on any change) reaches 3. That takes four equal lengths in a row: on the polls
  100, 250, 250, 250 stability is not declared, whatever the timeout; on
  100, 250, 250, 250, 250 it is declared (default timeout); on 100, 250, 250, 250, 400 it
  is not.
\<close>

theorem waitTillHTMLStable_stable_iff:
  "(waitTillHTMLStable (map Resolved xs) timeout = Stable) =
     (\<exists>n. 0 < n \<and> n \<le> length xs \<and> n * checkDurationMsecs \<le> timeout \<and>
          spec_counter (take n xs) = minStableSizeIterations) \<and>
   waitTillHTMLStable (map Resolved [100, 250, 250, 250]) timeout \<noteq> Stable \<and>
   waitTillHTMLStable (map Resolved [100, 250, 250, 250, 250]) 5000 = Stable \<and>
   waitTillHTMLStable (map Resolved [100, 250, 250, 250, 400]) timeout \<noteq> Stable"
  using stable_iff [of xs timeout] four_polls_never_stable [of timeout]
    five_polls_stable change_after_three_never_stable [of timeout]
  by blast

text \<open>
  Claim C1 as stated fails on the polls 100, 250, 250, 250: the counter stands at 2 after
  the fourth poll. When the loop ends there because the timeout allows four polls
  (2000 ms), the helper returns without declaring stability; with the default timeout a
  fifth poll is made, which this page does not answer.
\<close>

theorem waitTillHTMLStable_four_polls_counterexample:
  "waitTillHTMLStable [Resolved 100, Resolved 250, Resolved 250, Resolved 250] 2000 = TimedOut \<and>
   waitTillHTMLStable [Resolved 100, Resolved 250, Resolved 250, Resolved 250] 5000 =
     Threw no_more_content \<and>
   spec_counter [100, 250, 250, 250] = 2"
  by (simp add: waitTillHTMLStable_def checkDurationMsecs_def stable_loop_Cons stable_loop_Nil
        spec_counter_def spec_step_def)

subsection \<open>Closing\<close>

text \<open>
  Claim C9. \<^verbatim>\<open>closeBrowser\<close> never throws and returns the empty result, for every
  state of the object and of the world and whatever the browser answers (its rejection is
  caught); it leaves the object's fields as they are, and a second call, whatever the
  browser answers then, returns the empty result again.
\<close>

theorem closeBrowser_never_fails:
  "fst (closeBrowser a s w) = Resolved empty_result \<and>
   fst (snd (closeBrowser a s w)) = s \<and>
   fst (closeBrowser a2 (fst (snd (closeBrowser a s w))) (snd (snd (closeBrowser a s w)))) =
     Resolved empty_result"
  by (simp add: closeBrowser_eq)

text \<open>
  Claim C2 on the code. After a successful \<^verbatim>\<open>launchBrowser()\<close> and
  \<^verbatim>\<open>closeBrowser()\<close> the field \<^verbatim>\<open>page\<close> still holds the page, since
  \<^verbatim>\<open>closeBrowser\<close> assigns no field. A following \<^verbatim>\<open>type("a")\<close>, on a page whose
  calls now all reject, passes the guard of \<^verbatim>\<open>doAction\<close>, dispatches the keystrokes and
  two screenshots, and throws "Failed to take screenshot.", not the error of the guard.
\<close>

theorem action_after_close_evaluated:
  "page (fst (run [(LaunchBrowser False None, ok_answers), (CloseBrowser, ok_answers)]
                new_session new_world)) = Some 1 \<and>
   invoke (Action (Type ''a''))
     (ok_answers\<lparr>keyboard_type_answer := Rejected (Error ''Protocol error: Target closed''),
                 screenshot_webp := Rejected (Error ''Protocol error: Target closed''),
                 screenshot_png := Rejected (Error ''Protocol error: Target closed'')\<rparr>)
     (fst (run [(LaunchBrowser False None, ok_answers), (CloseBrowser, ok_answers)]
                new_session new_world))
     (snd (run [(LaunchBrowser False None, ok_answers), (CloseBrowser, ok_answers)]
                new_session new_world)) =
   (Rejected ScreenshotFailed,
    \<lparr>browser = Some 1, page = Some 1, currentMousePosition = None,
       isInteractive = False, browserPort = ''7333''\<rparr>,
    \<lparr>listeners = [(1, ''console'', 0), (1, ''pageerror'', 1)], next_listener = 2,
       calls = [Launch, NewPage 1, Close 1, KeyboardType 1 ''a'',
                Screenshot 1 ''webp'', Screenshot 1 ''png'']\<rparr>) \<and>
   ScreenshotFailed \<noteq> NoActivePage"
  by (simp add: eval_defs NoActivePage_def)

subsection \<open>Relaunching\<close>

text \<open>
  Claim C4 on the code. \<^verbatim>\<open>launchBrowser\<close> assigns \<^verbatim>\<open>isInteractive\<close> before it closes
  the browser it holds, so \<^verbatim>\<open>closeBrowser\<close> decides by the new mode: after
  \<^verbatim>\<open>launchBrowser()\<close>, the call \<^verbatim>\<open>launchBrowser(true, "9222")\<close> disconnects from the
  launched browser 1 and never closes it.
\<close>

theorem relaunch_disconnects_launched_browser:
  "run [(LaunchBrowser False None, ok_answers),
        (LaunchBrowser True (Some ''9222''),
           ok_answers\<lparr>connect_answer := Resolved 2, newPage_answer := Resolved 2\<rparr>)]
     new_session new_world =
   (\<lparr>browser = Some 2, page = Some 2, currentMousePosition = None,
      isInteractive = True, browserPort = ''9222''\<rparr>,
    \<lparr>listeners = [], next_listener = 0,
      calls = [Launch, NewPage 1, Disconnect 1, Fetch ''http://127.0.0.1:9222/json/version'',
               Connect ''ws://127.0.0.1/devtools/browser/1'', NewPage 2]\<rparr>)"
  by (simp add: eval_defs)

text \<open>
  Claim C8 on the code. \<^verbatim>\<open>launchBrowser(true, "9222")\<close> fetches from port 9222. When
  the fetch fails, the error thrown carries the fetch's message and the fixed text
  \<^verbatim>\<open>--remote-debugging-port=7333\<close>, and does not name 9222; when the document has no
  \<^verbatim>\<open>webSocketDebuggerUrl\<close>, it names 9222 in the inner message and still tells the caller
  to use port 7333.
\<close>

theorem connection_error_message_evaluated:
  "fst (launchBrowser True (Some ''9222'')
          (ok_answers\<lparr>fetch_answer := Rejected (Error ''fetch failed'')\<rparr>)
          new_session new_world) =
     Rejected (Error (''BrowserSession.ts :: launchBrowser :: Failed to connect to browser: '' @
       ''fetch failed, make sure you have a running browser with --remote-debugging-port=7333'')) \<and>
   fst (launchBrowser True (Some ''9222'')
          (ok_answers\<lparr>fetch_answer := Resolved (Resolved None)\<rparr>)
          new_session new_world) =
     Rejected (Error (''BrowserSession.ts :: launchBrowser :: Failed to connect to browser: '' @
       ''BrowserSession.ts :: launchBrowser :: Could not get webSocketDebuggerUrl from Chrome '' @
       ''debugging API, port: 9222, make sure you have a running browser with '' @
       ''--remote-debugging-port=7333''))"
  by (simp add: eval_defs ConnectionError_def missing_endpoint_def)

subsection \<open>The debugging port\<close>








subsection \<open>Listeners and screenshots\<close>

text \<open>
  Claim C3 on the code. When both screenshot formats fail, \<^verbatim>\<open>doAction\<close> throws before
  it reaches its two \<^verbatim>\<open>page.off\<close> calls: after \<^verbatim>\<open>type("a")\<close> on a launched browser
  the console and page-error listeners of that call are still registered on the page.
\<close>

theorem listeners_survive_failed_screenshot:
  "type ''a'' (ok_answers\<lparr>screenshot_webp := Rejected (Error ''webp''),
                           screenshot_png := Rejected (Error ''png'')\<rparr>)
        (fst launched) (snd launched) =
   (Rejected ScreenshotFailed, fst launched,
    \<lparr>listeners = [(1, ''console'', 0), (1, ''pageerror'', 1)], next_listener = 2,
       calls = [Launch, NewPage 1, KeyboardType 1 ''a'',
                Screenshot 1 ''webp'', Screenshot 1 ''png'']\<rparr>)"
  by (simp add: launched_eq eval_defs)

text \<open>
  Claim C7. For each of the five actions on an object with a page: if the webp capture
  resolves, the action returns a result with that image and no png capture is attempted;
  if the webp capture rejects and the png capture resolves, the action returns a result
  with the png image, png having been attempted after webp; if both reject, the action
  throws "Failed to take screenshot." and so returns no result at all.
\<close>

theorem screenshot_fallback:
  assumes "page s = Some p"
  shows "(\<forall>b. screenshot_webp a = Resolved b \<longrightarrow>
            (\<exists>r. fst (perform rq a s w) = Resolved r \<and>
                 screenshot r = Some (''data:image/webp;base64,'' @ b)) \<and>
            filter is_Screenshot (calls (snd (snd (perform rq a s w)))) =
              filter is_Screenshot (calls w) @ [Screenshot p ''webp'']) \<and>
         (\<forall>e b. screenshot_webp a = Rejected e \<and> screenshot_png a = Resolved b \<longrightarrow>
            (\<exists>r. fst (perform rq a s w) = Resolved r \<and>
                 screenshot r = Some (''data:image/png;base64,'' @ b)) \<and>
            filter is_Screenshot (calls (snd (snd (perform rq a s w)))) =
              filter is_Screenshot (calls w) @ [Screenshot p ''webp'', Screenshot p ''png'']) \<and>
         (\<forall>e e2. screenshot_webp a = Rejected e \<and> screenshot_png a = Rejected e2 \<longrightarrow>
            fst (perform rq a s w) = Rejected ScreenshotFailed \<and>
            filter is_Screenshot (calls (snd (snd (perform rq a s w)))) =
              filter is_Screenshot (calls w) @ [Screenshot p ''webp'', Screenshot p ''png''])"
proof -
  let ?w1 = "page_on p ''pageerror'' (Suc (next_listener w))
           (page_on p ''console'' (next_listener w)
              (w\<lparr>next_listener := Suc (Suc (next_listener w))\<rparr>))"
  obtain r s1 w2 where eff: "request_effect rq a p s ?w1 = (r, s1, w2)"
    by (cases "request_effect rq a p s ?w1") auto
  from request_effect_keeps [OF eff] assms
  have pg: "page s1 = Some p"
    and cs: "filter is_Screenshot (calls w2) = filter is_Screenshot (calls w)"
    by (simp_all add: page_on_def)
  note run = doAction_unfold [where action = "request_effect rq", OF assms eff pg] getCurrentScreenshot_cases [OF pg]
  show ?thesis
    by (auto simp: perform_doAction run cs dispatch_def page_off_def)
qed

text \<open>The three cases of claim C7 on a launched browser.\<close>

theorem screenshot_fallback_witness:
  "page (fst launched) = Some 1 \<and>
   (\<exists>r. fst (perform (Type ''a'') ok_answers (fst launched) (snd launched)) = Resolved r \<and>
        screenshot r = Some ''data:image/webp;base64,UklGRg=='') \<and>
   filter is_Screenshot (calls (snd (snd (perform (Type ''a'') ok_answers (fst launched) (snd launched))))) =
     [Screenshot 1 ''webp''] \<and>
   (\<exists>r. fst (perform ScrollDown (ok_answers\<lparr>screenshot_webp := Rejected (Error ''webp'')\<rparr>)
               (fst launched) (snd launched)) = Resolved r \<and>
        screenshot r = Some ''data:image/png;base64,iVBORw=='') \<and>
   filter is_Screenshot (calls (snd (snd (perform ScrollDown
       (ok_answers\<lparr>screenshot_webp := Rejected (Error ''webp'')\<rparr>) (fst launched) (snd launched))))) =
     [Screenshot 1 ''webp'', Screenshot 1 ''png''] \<and>
   fst (perform (Click ''1,2'') (ok_answers\<lparr>screenshot_webp := Rejected (Error ''webp''),
                                            screenshot_png := Rejected (Error ''png'')\<rparr>)
          (fst launched) (snd launched)) = Rejected ScreenshotFailed"
proof -
  have h1: "page (fst launched) = Some 1" by (simp add: launched_eq)
  have c: "filter is_Screenshot (calls (snd launched)) = []" by (simp add: launched_eq)
  show ?thesis
    using h1 c
      screenshot_fallback [OF h1, of ok_answers "Type ''a''" "snd launched"]
      screenshot_fallback [OF h1, of "ok_answers\<lparr>screenshot_webp := Rejected (Error ''webp'')\<rparr>"
         ScrollDown "snd launched"]
      screenshot_fallback [OF h1, of "ok_answers\<lparr>screenshot_webp := Rejected (Error ''webp''),
                                            screenshot_png := Rejected (Error ''png'')\<rparr>"
         "Click ''1,2''" "snd launched"]
    by (simp add: ok_answers_def)
qed

subsection \<open>Clicking\<close>




text \<open>
  Claim C6, as the code has it. On an object with a page: when the pointer click resolves,
  the stored cursor position after \<^verbatim>\<open>click(coordinate)\<close> is the coordinate string as
  passed, whatever else happens in the call; when the pointer click rejects, the stored
  position is left as it was; a returned result carries the stored position.
\<close>

theorem click_cursor_position:
  assumes "page s = Some p"
  shows "(mouse_click_answer a = Resolved () \<longrightarrow>
            currentMousePosition (fst (snd (click c a s w))) = Some c) \<and>
         (\<forall>e. mouse_click_answer a = Rejected e \<longrightarrow>
            currentMousePosition (fst (snd (click c a s w))) = currentMousePosition s) \<and>
         (\<forall>res. fst (click c a s w) = Resolved res \<longrightarrow>
            mousePosition res = currentMousePosition (fst (snd (click c a s w))))"
proof -
  let ?w1 = "page_on p ''pageerror'' (Suc (next_listener w))
           (page_on p ''console'' (next_listener w)
              (w\<lparr>next_listener := Suc (Suc (next_listener w))\<rparr>))"
  obtain r s1 w2 where eff: "click_effect c a p s ?w1 = (r, s1, w2)"
    by (cases "click_effect c a p s ?w1") auto
  have pg1: "page s1 = Some p"
    using click_effect_facts(4) [OF eff] assms by simp
  note sm = doAction_summary [where action = "click_effect c", OF assms eff pg1]
  show ?thesis
    using click_effect_facts(2,3) [OF eff] sm(1) sm(4) by (auto simp: click_def)
qed

text \<open>Claim C6 as amended, at the coordinate \<^verbatim>\<open>10,20\<close> on a launched browser.\<close>

theorem click_cursor_position_witness:
  "page (fst launched) = Some 1 \<and>
   currentMousePosition (fst (snd (click ''10,20'' ok_answers (fst launched) (snd launched)))) =
     Some ''10,20'' \<and>
   currentMousePosition (fst (snd (click ''10,20''
       (ok_answers\<lparr>mouse_click_answer := Rejected (Error ''Protocol error: Target closed'')\<rparr>)
       (fst launched) (snd launched)))) = currentMousePosition (fst launched)"
proof -
  have h1: "page (fst launched) = Some 1" by (simp add: launched_eq)
  show ?thesis
    using h1
      click_cursor_position [OF h1, of ok_answers "''10,20''" "snd launched"]
      click_cursor_position [OF h1,
        of "ok_answers\<lparr>mouse_click_answer := Rejected (Error ''Protocol error: Target closed'')\<rparr>"
           "''10,20''" "snd launched"]
    by (simp add: ok_answers_def)
qed

text \<open>
  Claim C6 as stated fails when the pointer click rejects: after \<^verbatim>\<open>click("10,20")\<close> the
  call returns a result, with the error as a log line, and the stored cursor position is
  still absent.
\<close>

theorem click_rejected_cursor_counterexample:
  "spec_valid_coordinate ''10,20'' \<and>
   click ''10,20''
     (ok_answers\<lparr>mouse_click_answer := Rejected (Error ''Protocol error: Target closed'')\<rparr>)
     (fst launched) (snd launched) =
     (Resolved \<lparr>screenshot = Some ''data:image/webp;base64,UklGRg=='',
                logs = Some ''[Error] Error: Protocol error: Target closed'',
                currentUrl = Some ''about:blank'', mousePosition = None\<rparr>,
      \<lparr>browser = Some 1, page = Some 1, currentMousePosition = None,
         isInteractive = False, browserPort = ''7333''\<rparr>,
      \<lparr>listeners = [(1, ''request'', 2)], next_listener = 3,
         calls = [Launch, NewPage 1, MouseClick 1 (Number ''10'') (Number ''20''),
                  Screenshot 1 ''webp'']\<rparr>)"
  by (simp add: launched_eq eval_defs spec_valid_coordinate_def is_digit_def)

end
